theory Spec2Isabelle
  imports Main
begin

section \<open>Data model\<close>

subsection \<open>Exceptions\<close>

text \<open>
  The exception classes that can leave the calls made by \<^verbatim>\<open>analyze_file\<close>:
  \<^verbatim>\<open>open\<close> raises \<^verbatim>\<open>OSError\<close>, decoding the file as UTF-8 raises
  \<^verbatim>\<open>UnicodeDecodeError\<close>, \<^verbatim>\<open>ast.parse\<close> raises \<^verbatim>\<open>SyntaxError\<close> on
  malformed source and may raise other exceptions (\<^verbatim>\<open>ValueError\<close>,
  \<^verbatim>\<open>RecursionError\<close>, \<^verbatim>\<open>MemoryError\<close>) on pathological source.
\<close>

datatype exn = OSError | UnicodeDecodeError | SyntaxError | ValueError | RecursionError | MemoryError

subsection \<open>Diagnostics\<close>

text \<open>
  The dictionaries built by \<^verbatim>\<open>Rule.report\<close> and \<^verbatim>\<open>check_large_file\<close>, with
  their six keys.
\<close>

record diagnostic =
  "file" :: string
  rule_id :: string
  category :: string
  severity :: string
  message :: string
  line :: int

subsection \<open>Syntax trees\<close>

text \<open>
  The part of a Python syntax tree that the rules read.  A node has a class and an ordered
  list of child nodes, the one \<^verbatim>\<open>ast.iter_child_nodes\<close> yields and
  \<^verbatim>\<open>NodeVisitor.generic_visit\<close> walks.  The classes named by the rules carry the
  attributes the rules read: \<^verbatim>\<open>name\<close>, \<^verbatim>\<open>args\<close>, \<^verbatim>\<open>lineno\<close> and
  \<^verbatim>\<open>end_lineno\<close> of a function definition, the alias names and \<^verbatim>\<open>lineno\<close> of an
  \<^verbatim>\<open>import\<close>, \<^verbatim>\<open>module\<close> (which may be \<^verbatim>\<open>None\<close>) and \<^verbatim>\<open>lineno\<close> of a
  \<^verbatim>\<open>from ... import\<close>, and \<^verbatim>\<open>lineno\<close> of \<^verbatim>\<open>if\<close>, \<^verbatim>\<open>for\<close> and
  \<^verbatim>\<open>while\<close>.  Every other class (\<^verbatim>\<open>Module\<close>, \<^verbatim>\<open>arguments\<close>, \<^verbatim>\<open>alias\<close>,
  \<^verbatim>\<open>AsyncFor\<close>, expressions, ...) is \<open>Other\<close>.
\<close>

record arguments =
  posonlyargs :: "string list"
  args :: "string list"
  vararg :: "string option"
  kwonlyargs :: "string list"
  kwarg :: "string option"

datatype kind =
    FunctionDef string arguments int int
  | AsyncFunctionDef string arguments int int
  | Import "string list" int
  | ImportFrom "string option" int
  | If_stmt int
  | For int
  | While int
  | Other

datatype node = Node kind "node list"

subsection \<open>Rule instances\<close>

text \<open>
  A rule object: its class (which fixes \<^verbatim>\<open>RULE_ID\<close>, \<^verbatim>\<open>CATEGORY\<close> and
  \<^verbatim>\<open>SEVERITY\<close>), \<^verbatim>\<open>self.file_path\<close> and \<^verbatim>\<open>self.issues\<close>.
\<close>

datatype rule_class = LongFunctionRule | DeprecatedImportRule | TooManyParametersRule | DeepNestingRule

fun RULE_ID :: "rule_class \<Rightarrow> string" where
  "RULE_ID LongFunctionRule = ''MAINT_001''"
| "RULE_ID DeprecatedImportRule = ''DEPR_001''"
| "RULE_ID TooManyParametersRule = ''MAINT_002''"
| "RULE_ID DeepNestingRule = ''SMELL_001''"

fun CATEGORY :: "rule_class \<Rightarrow> string" where
  "CATEGORY LongFunctionRule = ''Maintainability''"
| "CATEGORY DeprecatedImportRule = ''Deprecated''"
| "CATEGORY TooManyParametersRule = ''Maintainability''"
| "CATEGORY DeepNestingRule = ''Code Smell''"

fun SEVERITY :: "rule_class \<Rightarrow> string" where
  "SEVERITY LongFunctionRule = ''MEDIUM''"
| "SEVERITY DeprecatedImportRule = ''HIGH''"
| "SEVERITY TooManyParametersRule = ''MEDIUM''"
| "SEVERITY DeepNestingRule = ''MEDIUM''"

record rule =
  cls :: rule_class
  self_file_path :: string
  self_issues :: "diagnostic list"

definition new_rule :: "rule_class \<Rightarrow> string \<Rightarrow> rule" where
  "new_rule c file_path = \<lparr>cls = c, self_file_path = file_path, self_issues = []\<rparr>"

definition report :: "rule \<Rightarrow> string \<Rightarrow> int \<Rightarrow> rule" where
  "report self message' line' =
     self\<lparr>self_issues := self_issues self @
       [\<lparr>file = self_file_path self,
         rule_id = RULE_ID (cls self),
         category = CATEGORY (cls self),
         severity = SEVERITY (cls self),
         message = message',
         line = line'\<rparr>]\<rparr>"

section \<open>Formatting integers\<close>

text \<open>The decimal text that an f-string gives for an integer.\<close>

definition digit_char :: "nat \<Rightarrow> char" where
  "digit_char d = ''0123456789'' ! d"

fun str_nat :: "nat \<Rightarrow> string" where
  "str_nat n = (if n < 10 then [digit_char n] else str_nat (n div 10) @ [digit_char (n mod 10)])"

declare str_nat.simps [simp del]

definition str_int :: "int \<Rightarrow> string" where
  "str_int i = (if i < 0 then CHR ''-'' # str_nat (nat (- i)) else str_nat (nat i))"

section \<open>The rules\<close>

subsection \<open>Long functions\<close>

definition MAX_LINES :: int where
  "MAX_LINES = 50"

fun LongFunctionRule_visit :: "node \<Rightarrow> rule \<Rightarrow> rule" where
  "LongFunctionRule_visit (Node (FunctionDef name a lineno end_lineno) cs) self =
     (let len = end_lineno - lineno;
          self1 = (if len > MAX_LINES
                   then report self
                          (''Function '' @ [CHR 0x27] @ name @ [CHR 0x27] @ '' too long ('' @
                             str_int len @ '' lines)'')
                          lineno
                   else self)
      in fold LongFunctionRule_visit cs self1)"
| "LongFunctionRule_visit (Node k cs) self = fold LongFunctionRule_visit cs self"

subsection \<open>Deprecated imports\<close>

definition DEPRECATED_MODULES :: "string set" where
  "DEPRECATED_MODULES = {''imp'', ''optparse''}"

fun visit_Import_names :: "string list \<Rightarrow> int \<Rightarrow> rule \<Rightarrow> rule" where
  "visit_Import_names [] lineno self = self"
| "visit_Import_names (alias_name # names) lineno self =
     visit_Import_names names lineno
       (if alias_name \<in> DEPRECATED_MODULES
        then report self
               (''Deprecated module '' @ [CHR 0x27] @ alias_name @ [CHR 0x27] @ '' used'') lineno
        else self)"

fun DeprecatedImportRule_visit :: "node \<Rightarrow> rule \<Rightarrow> rule" where
  "DeprecatedImportRule_visit (Node (Import names lineno) cs) self =
     visit_Import_names names lineno self"
| "DeprecatedImportRule_visit (Node (ImportFrom module lineno) cs) self =
     (case module of
        None \<Rightarrow> self
      | Some m \<Rightarrow>
          if m \<in> DEPRECATED_MODULES
          then report self (''Deprecated module '' @ [CHR 0x27] @ m @ [CHR 0x27] @ '' used'') lineno
          else self)"
| "DeprecatedImportRule_visit (Node k cs) self = fold DeprecatedImportRule_visit cs self"

subsection \<open>Too many parameters\<close>

definition MAX_PARAMS :: int where
  "MAX_PARAMS = 5"

fun TooManyParametersRule_visit :: "node \<Rightarrow> rule \<Rightarrow> rule" where
  "TooManyParametersRule_visit (Node (FunctionDef name a lineno end_lineno) cs) self =
     (let self1 = (if int (length (args a)) > MAX_PARAMS
                   then report self
                          (''Function '' @ [CHR 0x27] @ name @ [CHR 0x27] @
                             '' has too many parameters ('' @ str_int (int (length (args a))) @ '')'')
                          lineno
                   else self)
      in fold TooManyParametersRule_visit cs self1)"
| "TooManyParametersRule_visit (Node k cs) self = fold TooManyParametersRule_visit cs self"

subsection \<open>Deep nesting\<close>

definition MAX_DEPTH :: int where
  "MAX_DEPTH = 3"

fun is_If_For_While :: "kind \<Rightarrow> bool" where
  "is_If_For_While (If_stmt l) = True"
| "is_If_For_While (For l) = True"
| "is_If_For_While (While l) = True"
| "is_If_For_While k = False"

fun lineno_of :: "kind \<Rightarrow> int" where
  "lineno_of (FunctionDef name a l e) = l"
| "lineno_of (AsyncFunctionDef name a l e) = l"
| "lineno_of (Import names l) = l"
| "lineno_of (ImportFrom module l) = l"
| "lineno_of (If_stmt l) = l"
| "lineno_of (For l) = l"
| "lineno_of (While l) = l"
| "lineno_of Other = 0"

fun DeepNestingRule_visit :: "node \<Rightarrow> int \<Rightarrow> rule \<Rightarrow> rule" where
  "DeepNestingRule_visit (Node k cs) depth self =
     (if is_If_For_While k
      then fold (\<lambda>child. DeepNestingRule_visit child (depth + 1)) cs
             (if depth + 1 > MAX_DEPTH
              then report self ''Deep nesting detected'' (lineno_of k)
              else self)
      else fold (\<lambda>child. DeepNestingRule_visit child depth) cs self)"

subsection \<open>Dispatch\<close>

text \<open>
  \<^verbatim>\<open>rule.visit(tree)\<close>: \<^verbatim>\<open>DeepNestingRule\<close> overrides \<^verbatim>\<open>visit\<close> (with
  \<^verbatim>\<open>depth=0\<close> by default); the other classes inherit \<^verbatim>\<open>NodeVisitor.visit\<close>, which
  calls \<^verbatim>\<open>visit_<Class>\<close> where the rule defines it and \<^verbatim>\<open>generic_visit\<close> otherwise.
\<close>

definition visit :: "rule \<Rightarrow> node \<Rightarrow> rule" where
  "visit self tree =
     (case cls self of
        LongFunctionRule \<Rightarrow> LongFunctionRule_visit tree self
      | DeprecatedImportRule \<Rightarrow> DeprecatedImportRule_visit tree self
      | TooManyParametersRule \<Rightarrow> TooManyParametersRule_visit tree self
      | DeepNestingRule \<Rightarrow> DeepNestingRule_visit tree 0 self)"

section \<open>The large-file check\<close>

text \<open>
  Opening and reading a file in text mode gives its decoded text, with line ends translated
  to \<^verbatim>\<open>\n\<close>, or raises.  A file system maps a path to that outcome.
  \<^verbatim>\<open>readlines\<close> cuts the text after every \<^verbatim>\<open>\n\<close>; a last line without one counts.
\<close>

type_synonym filesystem = "string \<Rightarrow> exn + string"

fun readlines :: "string \<Rightarrow> string list" where
  "readlines [] = []"
| "readlines (c # cs) =
     (if c = CHR 0x0A then [c] # readlines cs
      else (case readlines cs of [] \<Rightarrow> [[c]] | l # ls \<Rightarrow> (c # l) # ls))"

definition check_large_file :: "filesystem \<Rightarrow> string \<Rightarrow> nat \<Rightarrow> exn + diagnostic option" where
  "check_large_file fs file_path max_lines =
     (case fs file_path of
        Inl e \<Rightarrow> Inl e
      | Inr text \<Rightarrow>
          (let lines = readlines text
           in if length lines > max_lines
              then Inr (Some \<lparr>file = file_path,
                               rule_id = ''ORG_001'',
                               category = ''Organization'',
                               severity = ''MEDIUM'',
                               message = ''File too large ('' @ str_int (int (length lines)) @ '' lines)'',
                               line = 1\<rparr>)
              else Inr None))"

section \<open>The analyzer\<close>

text \<open>
  \<^verbatim>\<open>ast.parse\<close> is a parameter: it returns a tree or raises.  Only
  \<^verbatim>\<open>SyntaxError\<close> is caught; the handler encloses the second \<^verbatim>\<open>open\<close> and
  \<^verbatim>\<open>read\<close> too, whose exceptions are of other classes and leave the function, as do
  those of \<^verbatim>\<open>check_large_file\<close>, which is called outside the handler.
\<close>

type_synonym parser = "string \<Rightarrow> exn + node"

definition rules :: "string \<Rightarrow> rule list" where
  "rules file_path =
     [new_rule LongFunctionRule file_path,
      new_rule DeprecatedImportRule file_path,
      new_rule TooManyParametersRule file_path,
      new_rule DeepNestingRule file_path]"

fun run_rules :: "rule list \<Rightarrow> node \<Rightarrow> diagnostic list \<Rightarrow> diagnostic list" where
  "run_rules [] tree issues = issues"
| "run_rules (rule # rs) tree issues = run_rules rs tree (issues @ self_issues (visit rule tree))"

definition analyze_file :: "filesystem \<Rightarrow> parser \<Rightarrow> string \<Rightarrow> exn + diagnostic list" where
  "analyze_file fs parse file_path =
     (case check_large_file fs file_path 500 of
        Inl e \<Rightarrow> Inl e
      | Inr large_file_issue \<Rightarrow>
          (let issues = (case large_file_issue of None \<Rightarrow> [] | Some d \<Rightarrow> [d])
           in case fs file_path of
                Inl e \<Rightarrow> Inl e
              | Inr text \<Rightarrow>
                  (case parse text of
                     Inl e \<Rightarrow> if e = SyntaxError then Inr issues else Inl e
                   | Inr tree \<Rightarrow> Inr (run_rules (rules file_path) tree issues))))"

subsection \<open>The analyzer under the interpreter's recursion limit\<close>




section \<open>Reference definitions\<close>

text \<open>
  What the specification says each rule reports, written without the visitors' state: the
  nodes of a tree in pre-order, and for each node the diagnostics it gives rise to.  The
  lemmas below relate the visitors to these.
\<close>

fun preorder :: "node \<Rightarrow> node list" where
  "preorder (Node k cs) = Node k cs # concat (map preorder cs)"

text \<open>Pre-order that does not descend below an import statement.\<close>

fun preorder_to_imports :: "node \<Rightarrow> node list" where
  "preorder_to_imports (Node (Import names lineno) cs) = [Node (Import names lineno) cs]"
| "preorder_to_imports (Node (ImportFrom module lineno) cs) = [Node (ImportFrom module lineno) cs]"
| "preorder_to_imports (Node k cs) = Node k cs # concat (map preorder_to_imports cs)"

text \<open>
  Pre-order in which every node comes with the classes of the nodes that enclose it, outermost
  first.
\<close>

fun occurrences :: "kind list \<Rightarrow> node \<Rightarrow> (kind list \<times> kind) list" where
  "occurrences enclosing (Node k cs) =
     (enclosing, k) # concat (map (occurrences (enclosing @ [k])) cs)"

text \<open>The number of If/For/While constructs that enclose a node, the node included.\<close>

definition nesting_depth :: "kind list \<times> kind \<Rightarrow> nat" where
  "nesting_depth occ = length (filter is_If_For_While (fst occ @ [snd occ]))"

definition long_function_diagnostic :: "string \<Rightarrow> string \<Rightarrow> int \<Rightarrow> int \<Rightarrow> diagnostic" where
  "long_function_diagnostic fp name lineno end_lineno =
     \<lparr>file = fp, rule_id = ''MAINT_001'', category = ''Maintainability'', severity = ''MEDIUM'',
      message = ''Function '' @ [CHR 0x27] @ name @ [CHR 0x27] @ '' too long ('' @
                str_int (end_lineno - lineno) @ '' lines)'',
      line = lineno\<rparr>"

fun long_function_at :: "string \<Rightarrow> node \<Rightarrow> diagnostic list" where
  "long_function_at fp (Node (FunctionDef name a lineno end_lineno) cs) =
     (if end_lineno - lineno > 50 then [long_function_diagnostic fp name lineno end_lineno] else [])"
| "long_function_at fp (Node k cs) = []"

definition too_many_parameters_diagnostic :: "string \<Rightarrow> string \<Rightarrow> int \<Rightarrow> nat \<Rightarrow> diagnostic" where
  "too_many_parameters_diagnostic fp name lineno n =
     \<lparr>file = fp, rule_id = ''MAINT_002'', category = ''Maintainability'', severity = ''MEDIUM'',
      message = ''Function '' @ [CHR 0x27] @ name @ [CHR 0x27] @ '' has too many parameters ('' @
                str_int (int n) @ '')'',
      line = lineno\<rparr>"

fun too_many_parameters_at :: "string \<Rightarrow> node \<Rightarrow> diagnostic list" where
  "too_many_parameters_at fp (Node (FunctionDef name a lineno end_lineno) cs) =
     (if length (args a) > 5
      then [too_many_parameters_diagnostic fp name lineno (length (args a))] else [])"
| "too_many_parameters_at fp (Node k cs) = []"

definition deprecated_import_diagnostic :: "string \<Rightarrow> string \<Rightarrow> int \<Rightarrow> diagnostic" where
  "deprecated_import_diagnostic fp m lineno =
     \<lparr>file = fp, rule_id = ''DEPR_001'', category = ''Deprecated'', severity = ''HIGH'',
      message = ''Deprecated module '' @ [CHR 0x27] @ m @ [CHR 0x27] @ '' used'',
      line = lineno\<rparr>"

fun deprecated_import_at :: "string \<Rightarrow> node \<Rightarrow> diagnostic list" where
  "deprecated_import_at fp (Node (Import names lineno) cs) =
     map (\<lambda>m. deprecated_import_diagnostic fp m lineno)
       (filter (\<lambda>m. m = ''imp'' \<or> m = ''optparse'') names)"
| "deprecated_import_at fp (Node (ImportFrom module lineno) cs) =
     (if module = Some ''imp'' then [deprecated_import_diagnostic fp ''imp'' lineno]
      else if module = Some ''optparse'' then [deprecated_import_diagnostic fp ''optparse'' lineno]
      else [])"
| "deprecated_import_at fp (Node k cs) = []"

definition deep_nesting_diagnostic :: "string \<Rightarrow> int \<Rightarrow> diagnostic" where
  "deep_nesting_diagnostic fp lineno =
     \<lparr>file = fp, rule_id = ''SMELL_001'', category = ''Code Smell'', severity = ''MEDIUM'',
      message = ''Deep nesting detected'', line = lineno\<rparr>"

definition deep_nesting_at :: "string \<Rightarrow> kind list \<times> kind \<Rightarrow> diagnostic list" where
  "deep_nesting_at fp occ =
     (if is_If_For_While (snd occ) \<and> nesting_depth occ > 3
      then [deep_nesting_diagnostic fp (lineno_of (snd occ))] else [])"

definition large_file_diagnostic :: "string \<Rightarrow> nat \<Rightarrow> diagnostic" where
  "large_file_diagnostic fp n =
     \<lparr>file = fp, rule_id = ''ORG_001'', category = ''Organization'', severity = ''MEDIUM'',
      message = ''File too large ('' @ str_int (int n) @ '' lines)'', line = 1\<rparr>"

definition large_file_issues :: "string \<Rightarrow> string \<Rightarrow> diagnostic list" where
  "large_file_issues fp text =
     (if length (readlines text) > 500 then [large_file_diagnostic fp (length (readlines text))]
      else [])"

text \<open>
  The number of parameters a function definition declares, in the words of the
  specification: every declared name counts, of whatever kind.
\<close>

definition declared_parameters :: "arguments \<Rightarrow> nat" where
  "declared_parameters a =
     length (posonlyargs a) + length (args a) + (case vararg a of None \<Rightarrow> 0 | Some v \<Rightarrow> 1)
     + length (kwonlyargs a) + (case kwarg a of None \<Rightarrow> 0 | Some v \<Rightarrow> 1)"

text \<open>Appending diagnostics to a rule object's list.\<close>

definition emit :: "rule \<Rightarrow> diagnostic list \<Rightarrow> rule" where
  "emit self ds = self\<lparr>self_issues := self_issues self @ ds\<rparr>"

section \<open>Example inputs\<close>

text \<open>
  Names for the nodes of example trees.  A module, a name expression, a \<^verbatim>\<open>pass\<close>
  statement, an alias and an \<^verbatim>\<open>arguments\<close> node are all of class \<open>Other\<close>.
\<close>

abbreviation Module :: "node list \<Rightarrow> node" where
  "Module body \<equiv> Node Other body"

abbreviation Name :: node where
  "Name \<equiv> Node Other []"

abbreviation Pass :: node where
  "Pass \<equiv> Node Other []"

abbreviation alias_node :: node where
  "alias_node \<equiv> Node Other []"

definition positional :: "string list \<Rightarrow> arguments" where
  "positional names =
     \<lparr>posonlyargs = [], args = names, vararg = None, kwonlyargs = [], kwarg = None\<rparr>"

abbreviation arguments_node :: "arguments \<Rightarrow> node" where
  "arguments_node a \<equiv> Node Other (map (\<lambda>n. Node Other []) (posonlyargs a @ args a))"

text \<open>
  File systems: one readable file, or one file that is not valid UTF-8; every other path
  cannot be opened.  Parsers: one that rejects every text, one that gives a fixed tree.
\<close>

definition single_file :: "string \<Rightarrow> string \<Rightarrow> filesystem" where
  "single_file path text p = (if p = path then Inr text else Inl OSError)"


definition rejecting :: parser where
  "rejecting text = Inl SyntaxError"

definition parsing_to :: "node \<Rightarrow> parser" where
  "parsing_to tree text = Inr tree"

text \<open>The text of a file, from its lines.\<close>

definition source_lines :: "string list \<Rightarrow> string" where
  "source_lines ls = concat (map (\<lambda>l. l @ [CHR 0x0A]) ls)"

text \<open>
  A module of 510 lines: two deprecated imports, then a function of six parameters that
  spans lines 3 to 69 and holds \<^verbatim>\<open>if\<close>, \<^verbatim>\<open>for\<close>, \<^verbatim>\<open>while\<close>, \<^verbatim>\<open>if\<close> nested
  in one another; and its tree.
\<close>

definition example_source :: string where
  "example_source =
     source_lines
       ([''import imp'',
         ''import optparse'',
         ''def f(a, b, c, d, e, g):'',
         ''    if a:'',
         ''        for x in b:'',
         ''            while c:'',
         ''                if d:'',
         ''                    pass'']
        @ replicate 60 []
        @ [''    return e'']
        @ replicate 441 [])"

definition example_tree :: node where
  "example_tree =
     Module
       [Node (Import [''imp''] 1) [alias_node],
        Node (Import [''optparse''] 2) [alias_node],
        Node (FunctionDef ''f'' (positional [''a'', ''b'', ''c'', ''d'', ''e'', ''g'']) 3 69)
          [arguments_node (positional [''a'', ''b'', ''c'', ''d'', ''e'', ''g'']),
           Node (If_stmt 4) [Name,
             Node (For 5) [Name, Name,
               Node (While 6) [Name,
                 Node (If_stmt 7) [Name, Pass]]]],
           Node Other [Name]]]"






section \<open>The visitors append what the reference definitions say\<close>

subsection \<open>Threading the list of issues\<close>

lemma emit_nil: "emit self [] = self"
  by (simp add: emit_def)

lemma emit_emit: "emit (emit self ds) es = emit self (ds @ es)"
  by (simp add: emit_def)

lemma emit_fields: "cls (emit self ds) = cls self" "self_file_path (emit self ds) = self_file_path self"
  "self_issues (emit self ds) = self_issues self @ ds"
  by (simp_all add: emit_def)

lemma fold_emit:
  assumes "\<And>c s. c \<in> set cs \<Longrightarrow> cls s = C \<Longrightarrow> self_file_path s = fp \<Longrightarrow> f c s = emit s (g c)"
    and "cls self = C" and "self_file_path self = fp"
  shows "fold f cs self = emit self (concat (map g cs))"
  using assms
proof (induction cs arbitrary: self)
  case Nil
  then show ?case by (simp add: emit_nil)
next
  case (Cons c cs)
  have "f c self = emit self (g c)" using Cons.prems by simp
  moreover have "fold f cs (emit self (g c)) = emit (emit self (g c)) (concat (map g cs))"
    using Cons.prems by (intro Cons.IH) (simp_all add: emit_fields)
  ultimately show ?case by (simp add: emit_emit)
qed

lemma concat_map_concat_map:
  "concat (map f (concat (map g cs))) = concat (map (\<lambda>c. concat (map f (g c))) cs)"
  by (induction cs) simp_all

lemma report_emit:
  "report self m l =
     emit self [\<lparr>file = self_file_path self, rule_id = RULE_ID (cls self),
                 category = CATEGORY (cls self), severity = SEVERITY (cls self),
                 message = m, line = l\<rparr>]"
  by (simp add: report_def emit_def)

subsection \<open>The four visitors\<close>

lemma LongFunctionRule_visit_emit:
  "cls self = LongFunctionRule \<Longrightarrow> self_file_path self = fp \<Longrightarrow>
   LongFunctionRule_visit n self = emit self (concat (map (long_function_at fp) (preorder n)))"
proof (induction n arbitrary: self)
  case (Node k cs)
  have children: "fold LongFunctionRule_visit cs s =
      emit s (concat (map (\<lambda>c. concat (map (long_function_at fp) (preorder c))) cs))"
    if "cls s = LongFunctionRule" "self_file_path s = fp" for s
    using Node.IH that by (intro fold_emit [where C = LongFunctionRule and fp = fp]) simp_all
  show ?case
    using Node.prems
    by (cases k)
      (simp_all add: children Let_def report_emit emit_fields emit_emit emit_nil
        concat_map_concat_map long_function_diagnostic_def MAX_LINES_def)
qed

lemma TooManyParametersRule_visit_emit:
  "cls self = TooManyParametersRule \<Longrightarrow> self_file_path self = fp \<Longrightarrow>
   TooManyParametersRule_visit n self =
     emit self (concat (map (too_many_parameters_at fp) (preorder n)))"
proof (induction n arbitrary: self)
  case (Node k cs)
  have children: "fold TooManyParametersRule_visit cs s =
      emit s (concat (map (\<lambda>c. concat (map (too_many_parameters_at fp) (preorder c))) cs))"
    if "cls s = TooManyParametersRule" "self_file_path s = fp" for s
    using Node.IH that by (intro fold_emit [where C = TooManyParametersRule and fp = fp]) simp_all
  show ?case
    using Node.prems
    by (cases k)
      (simp_all add: children Let_def report_emit emit_fields emit_emit emit_nil
        concat_map_concat_map too_many_parameters_diagnostic_def MAX_PARAMS_def)
qed

lemma visit_Import_names_emit:
  "cls self = DeprecatedImportRule \<Longrightarrow> self_file_path self = fp \<Longrightarrow>
   visit_Import_names names lineno self =
     emit self (map (\<lambda>m. deprecated_import_diagnostic fp m lineno)
                  (filter (\<lambda>m. m = ''imp'' \<or> m = ''optparse'') names))"
proof (induction names arbitrary: self)
  case Nil
  then show ?case by (simp add: emit_nil)
next
  case (Cons m names)
  then show ?case
    by (simp add: report_emit emit_fields emit_emit DEPRECATED_MODULES_def
        deprecated_import_diagnostic_def)
qed

lemma DeprecatedImportRule_visit_emit:
  "cls self = DeprecatedImportRule \<Longrightarrow> self_file_path self = fp \<Longrightarrow>
   DeprecatedImportRule_visit n self =
     emit self (concat (map (deprecated_import_at fp) (preorder_to_imports n)))"
proof (induction n arbitrary: self)
  case (Node k cs)
  have children: "fold DeprecatedImportRule_visit cs s =
      emit s (concat (map (\<lambda>c. concat (map (deprecated_import_at fp) (preorder_to_imports c))) cs))"
    if "cls s = DeprecatedImportRule" "self_file_path s = fp" for s
    using Node.IH that by (intro fold_emit [where C = DeprecatedImportRule and fp = fp]) simp_all
  show ?case
    using Node.prems
    by (cases k)
      (auto simp add: children report_emit emit_fields emit_emit emit_nil
        concat_map_concat_map visit_Import_names_emit deprecated_import_diagnostic_def
        DEPRECATED_MODULES_def split: option.splits)
qed

lemma deep_nesting_at_head:
  "deep_nesting_at fp (enclosing, k) =
     (if is_If_For_While k \<and> int (length (filter is_If_For_While enclosing)) + 1 > 3
      then [deep_nesting_diagnostic fp (lineno_of k)] else [])"
  by (simp add: deep_nesting_at_def nesting_depth_def)

lemma DeepNestingRule_visit_emit:
  "cls self = DeepNestingRule \<Longrightarrow> self_file_path self = fp \<Longrightarrow>
   depth = int (length (filter is_If_For_While enclosing)) \<Longrightarrow>
   DeepNestingRule_visit n depth self =
     emit self (concat (map (deep_nesting_at fp) (occurrences enclosing n)))"
proof (induction n arbitrary: self depth enclosing)
  case (Node k cs)
  have children: "fold (\<lambda>child. DeepNestingRule_visit child d) cs s =
      emit s (concat (map (\<lambda>c. concat (map (deep_nesting_at fp) (occurrences (enclosing @ [k]) c))) cs))"
    if "cls s = DeepNestingRule" "self_file_path s = fp"
      "d = int (length (filter is_If_For_While (enclosing @ [k])))" for s d
  proof (rule fold_emit [where C = DeepNestingRule and fp = fp])
    fix c and s' :: rule
    assume "c \<in> set cs" "cls s' = DeepNestingRule" "self_file_path s' = fp"
    then show "DeepNestingRule_visit c d s' =
        emit s' (concat (map (deep_nesting_at fp) (occurrences (enclosing @ [k]) c)))"
      using that(3) by (rule Node.IH)
  qed (use that in simp_all)
  show ?case
  proof (cases "is_If_For_While k")
    case True
    then show ?thesis
      using Node.prems
      by (simp add: children report_emit emit_fields emit_emit emit_nil concat_map_concat_map
          deep_nesting_at_head deep_nesting_diagnostic_def MAX_DEPTH_def)
  next
    case False
    then show ?thesis
      using Node.prems
      by (simp add: children emit_fields emit_emit emit_nil concat_map_concat_map
          deep_nesting_at_head)
  qed
qed

section \<open>Lines of a text\<close>

lemma concat_readlines: "concat (readlines t) = t"
  by (induction t) (auto split: list.splits)

lemma readlines_Nil_iff: "readlines t = [] \<longleftrightarrow> t = []"
  by (cases t) (auto split: list.splits)

lemma length_readlines:
  "length (readlines t) =
     length (filter (\<lambda>c. c = CHR 0x0A) t) + (if t = [] \<or> last t = CHR 0x0A then 0 else 1)"
proof (induction t)
  case Nil
  then show ?case by simp
next
  case (Cons c t)
  then show ?case
    by (cases "readlines t") (auto simp: readlines_Nil_iff split: list.splits)
qed

lemma readlines_line:
  "CHR 0x0A \<notin> set l \<Longrightarrow> readlines (l @ CHR 0x0A # t) = (l @ [CHR 0x0A]) # readlines t"
  by (induction l) auto

lemma length_readlines_source_lines:
  "\<forall>l \<in> set ls. CHR 0x0A \<notin> set l \<Longrightarrow> length (readlines (source_lines ls)) = length ls"
proof (induction ls)
  case Nil
  then show ?case by (simp add: source_lines_def)
next
  case (Cons l ls)
  then show ?case using readlines_line [of l "source_lines ls"]
    by (simp add: source_lines_def)
qed

lemma length_readlines_replicate:
  "CHR 0x0A \<notin> set l \<Longrightarrow> length (readlines (source_lines (replicate n l))) = n"
  by (subst length_readlines_source_lines) simp_all

lemma length_readlines_example_source: "length (readlines example_source) = 510"
  unfolding example_source_def
  by (subst length_readlines_source_lines) simp_all

lemma str_int_examples:
  "str_int 3 = ''3''" "str_int 6 = ''6''" "str_int 51 = ''51''" "str_int 66 = ''66''"
  "str_int 501 = ''501''" "str_int 510 = ''510''" "str_int 600 = ''600''"
  by (simp_all add: str_int_def str_nat.simps digit_char_def)

section \<open>A fresh rule object run on a tree\<close>

lemma visit_LongFunctionRule:
  "self_issues (visit (new_rule LongFunctionRule fp) tree) =
     concat (map (long_function_at fp) (preorder tree))"
  by (simp add: visit_def new_rule_def LongFunctionRule_visit_emit [where fp = fp] emit_def)

lemma visit_DeprecatedImportRule:
  "self_issues (visit (new_rule DeprecatedImportRule fp) tree) =
     concat (map (deprecated_import_at fp) (preorder_to_imports tree))"
  by (simp add: visit_def new_rule_def DeprecatedImportRule_visit_emit [where fp = fp] emit_def)

lemma visit_TooManyParametersRule:
  "self_issues (visit (new_rule TooManyParametersRule fp) tree) =
     concat (map (too_many_parameters_at fp) (preorder tree))"
  by (simp add: visit_def new_rule_def TooManyParametersRule_visit_emit [where fp = fp] emit_def)

lemma visit_DeepNestingRule:
  "self_issues (visit (new_rule DeepNestingRule fp) tree) =
     concat (map (deep_nesting_at fp) (occurrences [] tree))"
  by (simp add: visit_def new_rule_def
      DeepNestingRule_visit_emit [where fp = fp and enclosing = "[]"] emit_def)

lemma concat_map_deep_nesting_at:
  "concat (map (deep_nesting_at fp) occs) =
     map (\<lambda>occ. deep_nesting_diagnostic fp (lineno_of (snd occ)))
       (filter (\<lambda>occ. is_If_For_While (snd occ) \<and> nesting_depth occ > 3) occs)"
  by (induction occs) (simp_all add: deep_nesting_at_def)

lemma run_rules_rules:
  "run_rules (rules fp) tree issues =
     issues @ concat (map (long_function_at fp) (preorder tree))
            @ concat (map (deprecated_import_at fp) (preorder_to_imports tree))
            @ concat (map (too_many_parameters_at fp) (preorder tree))
            @ concat (map (deep_nesting_at fp) (occurrences [] tree))"
  by (simp add: rules_def visit_LongFunctionRule visit_DeprecatedImportRule
      visit_TooManyParametersRule visit_DeepNestingRule)

section \<open>The outcomes of the analyzer\<close>

lemma check_large_file_read:
  "fs fp = Inr text \<Longrightarrow>
   check_large_file fs fp 500 =
     Inr (if length (readlines text) > 500
          then Some (large_file_diagnostic fp (length (readlines text))) else None)"
  by (simp add: check_large_file_def large_file_diagnostic_def Let_def)

lemma check_large_file_raises: "fs fp = Inl e \<Longrightarrow> check_large_file fs fp n = Inl e"
  by (simp add: check_large_file_def)

lemma analyze_file_read_raises: "fs fp = Inl e \<Longrightarrow> analyze_file fs parse fp = Inl e"
  by (simp add: analyze_file_def check_large_file_raises)

lemma analyze_file_parse_rejects:
  "fs fp = Inr text \<Longrightarrow> parse text = Inl SyntaxError \<Longrightarrow>
   analyze_file fs parse fp = Inr (large_file_issues fp text)"
  by (simp add: analyze_file_def check_large_file_read large_file_issues_def)

lemma analyze_file_parse_raises:
  "fs fp = Inr text \<Longrightarrow> parse text = Inl e \<Longrightarrow> e \<noteq> SyntaxError \<Longrightarrow>
   analyze_file fs parse fp = Inl e"
  by (simp add: analyze_file_def check_large_file_read)

lemma analyze_file_parsed:
  "fs fp = Inr text \<Longrightarrow> parse text = Inr tree \<Longrightarrow>
   analyze_file fs parse fp =
     Inr (large_file_issues fp text
          @ concat (map (long_function_at fp) (preorder tree))
          @ concat (map (deprecated_import_at fp) (preorder_to_imports tree))
          @ concat (map (too_many_parameters_at fp) (preorder tree))
          @ concat (map (deep_nesting_at fp) (occurrences [] tree)))"
  by (simp add: analyze_file_def check_large_file_read large_file_issues_def run_rules_rules)

section \<open>The analyzer under a recursion limit\<close>












section \<open>The analyzer and errors\<close>




section \<open>Deep nesting\<close>

text \<open>
  Claim C2.  Run on a parsed tree, the deep-nesting rule reports \<^verbatim>\<open>SMELL_001\<close> exactly
  for the If/For/While nodes whose number of enclosing If/For/While constructs, themselves
  included, exceeds 3, in pre-order and each at its own line.  The depth of a node depends on
  the nodes that enclose it only, not on its siblings.  Four nested \<^verbatim>\<open>if\<close> statements
  give one diagnostic, at the line of the fourth; three give none; a \<^verbatim>\<open>for\<close> inside
  three \<^verbatim>\<open>if\<close>s gives one; six constructs of mixed kinds whose deepest is at depth 3
  give none.
\<close>

theorem DeepNestingRule_SMELL_001:
  "self_issues (visit (new_rule DeepNestingRule fp) tree) =
     map (\<lambda>occ. deep_nesting_diagnostic fp (lineno_of (snd occ)))
       (filter (\<lambda>occ. is_If_For_While (snd occ) \<and> nesting_depth occ > 3) (occurrences [] tree))
   \<and> self_issues (visit (new_rule DeepNestingRule fp)
        (Module [Node (If_stmt 1) [Name, Node (If_stmt 2) [Name, Node (If_stmt 3) [Name,
           Node (If_stmt 4) [Name, Pass]]]]])) =
       [\<lparr>file = fp, rule_id = ''SMELL_001'', category = ''Code Smell'', severity = ''MEDIUM'',
         message = ''Deep nesting detected'', line = 4\<rparr>]
   \<and> self_issues (visit (new_rule DeepNestingRule fp)
        (Module [Node (If_stmt 1) [Name, Node (If_stmt 2) [Name, Node (If_stmt 3) [Name, Pass]]]])) = []
   \<and> self_issues (visit (new_rule DeepNestingRule fp)
        (Module [Node (If_stmt 1) [Name, Node (If_stmt 2) [Name, Node (If_stmt 3) [Name,
           Node (For 4) [Name, Name, Pass]]]]])) =
       [\<lparr>file = fp, rule_id = ''SMELL_001'', category = ''Code Smell'', severity = ''MEDIUM'',
         message = ''Deep nesting detected'', line = 4\<rparr>]
   \<and> self_issues (visit (new_rule DeepNestingRule fp)
        (Module [Node (While 1) [Name,
           Node (For 2) [Name, Name, Node (If_stmt 3) [Name, Pass], Node (If_stmt 4) [Name, Pass]],
           Node (For 5) [Name, Name, Node (If_stmt 6) [Name, Pass]]]])) = []"
proof (intro conjI)
  show "self_issues (visit (new_rule DeepNestingRule fp) tree) =
     map (\<lambda>occ. deep_nesting_diagnostic fp (lineno_of (snd occ)))
       (filter (\<lambda>occ. is_If_For_While (snd occ) \<and> nesting_depth occ > 3) (occurrences [] tree))"
    by (simp only: visit_DeepNestingRule concat_map_deep_nesting_at)
qed (simp_all add: visit_DeepNestingRule deep_nesting_at_def nesting_depth_def
      deep_nesting_diagnostic_def)

section \<open>Large files and files that do not parse\<close>

text \<open>
  Claim C3.  For a file that can be read, the large-file check gives an \<^verbatim>\<open>ORG_001\<close>
  diagnostic with line 1 exactly when the file has more than 500 lines, and when the text
  of the file does not parse, \<^verbatim>\<open>analyze_file\<close> still returns that result.  (The witness
  reads a file of 501 lines, each an unclosed parenthesis, and one of 500.)
\<close>

theorem check_large_file_ORG_001:
  assumes "fs fp = Inr text"
  shows "check_large_file fs fp 500 =
     Inr (if length (readlines text) > 500
          then Some \<lparr>file = fp, rule_id = ''ORG_001'', category = ''Organization'',
                      severity = ''MEDIUM'',
                      message = ''File too large ('' @ str_int (int (length (readlines text))) @
                                '' lines)'',
                      line = 1\<rparr>
          else None)
   \<and> (parse text = Inl SyntaxError \<longrightarrow>
        analyze_file fs parse fp =
          Inr (case check_large_file fs fp 500 of Inr (Some d) \<Rightarrow> [d] | _ \<Rightarrow> []))"
  using assms analyze_file_parse_rejects [of fs fp "text" parse]
  by (simp add: check_large_file_read large_file_issues_def large_file_diagnostic_def)

theorem check_large_file_ORG_001_witness:
  "check_large_file (single_file ''big.py'' (source_lines (replicate 501 ''(''))) ''big.py'' 500 =
     Inr (Some \<lparr>file = ''big.py'', rule_id = ''ORG_001'', category = ''Organization'',
                 severity = ''MEDIUM'', message = ''File too large (501 lines)'', line = 1\<rparr>)
   \<and> analyze_file (single_file ''big.py'' (source_lines (replicate 501 ''(''))) rejecting ''big.py'' =
     Inr [\<lparr>file = ''big.py'', rule_id = ''ORG_001'', category = ''Organization'',
            severity = ''MEDIUM'', message = ''File too large (501 lines)'', line = 1\<rparr>]
   \<and> check_large_file (single_file ''big.py'' (source_lines (replicate 500 ''(''))) ''big.py'' 500 =
     Inr None
   \<and> analyze_file (single_file ''big.py'' (source_lines (replicate 500 ''(''))) rejecting ''big.py'' =
     Inr []"
proof -
  have r: "single_file ''big.py'' t ''big.py'' = Inr t" for t
    by (simp add: single_file_def)
  have p: "rejecting t = Inl SyntaxError" for t
    by (simp add: rejecting_def)
  show ?thesis
    using
      check_large_file_ORG_001 [of "single_file ''big.py'' (source_lines (replicate 501 ''(''))"
        "''big.py''" "source_lines (replicate 501 ''('')" rejecting, OF r]
      check_large_file_ORG_001 [of "single_file ''big.py'' (source_lines (replicate 500 ''(''))"
        "''big.py''" "source_lines (replicate 500 ''('')" rejecting, OF r]
    by (simp add: p length_readlines_replicate str_int_examples)
qed

text \<open>
  Claim C4.  When the file can be read and parsing its text raises \<^verbatim>\<open>SyntaxError\<close>,
  \<^verbatim>\<open>analyze_file\<close> returns, and what it returns is the result of the large-file check
  alone: the \<^verbatim>\<open>ORG_001\<close> diagnostic when the file has more than 500 lines, nothing
  otherwise.  No rule runs, and no diagnostic reports the parse failure.  (The witness reads
  malformed files of 600 lines and of 3 lines.)
\<close>

theorem analyze_file_SyntaxError_only_large_file:
  assumes "fs fp = Inr text" and "parse text = Inl SyntaxError"
  shows "analyze_file fs parse fp =
     Inr (if length (readlines text) > 500
          then [\<lparr>file = fp, rule_id = ''ORG_001'', category = ''Organization'',
                  severity = ''MEDIUM'',
                  message = ''File too large ('' @ str_int (int (length (readlines text))) @
                            '' lines)'',
                  line = 1\<rparr>]
          else [])"
  using analyze_file_parse_rejects [of fs fp "text" parse, OF assms]
  by (simp add: large_file_issues_def large_file_diagnostic_def)

theorem analyze_file_SyntaxError_only_large_file_witness:
  "analyze_file (single_file ''bad.py'' (source_lines (replicate 600 ''def f(:''))) rejecting ''bad.py'' =
     Inr [\<lparr>file = ''bad.py'', rule_id = ''ORG_001'', category = ''Organization'',
            severity = ''MEDIUM'', message = ''File too large (600 lines)'', line = 1\<rparr>]
   \<and> analyze_file (single_file ''bad.py'' (source_lines (replicate 3 ''def f(:''))) rejecting ''bad.py'' =
     Inr []"
proof -
  have r: "single_file ''bad.py'' t ''bad.py'' = Inr t" for t
    by (simp add: single_file_def)
  have p: "rejecting t = Inl SyntaxError" for t
    by (simp add: rejecting_def)
  show ?thesis
    using
      analyze_file_SyntaxError_only_large_file
        [of "single_file ''bad.py'' (source_lines (replicate 600 ''def f(:''))" "''bad.py''"
          "source_lines (replicate 600 ''def f(:'')" rejecting, OF r p]
      analyze_file_SyntaxError_only_large_file
        [of "single_file ''bad.py'' (source_lines (replicate 3 ''def f(:''))" "''bad.py''"
          "source_lines (replicate 3 ''def f(:'')" rejecting, OF r p]
    by (simp add: length_readlines_replicate str_int_examples)
qed

section \<open>The rules on function definitions and imports\<close>

text \<open>
  Claim C5.  The deprecated-import rule reports, for an \<^verbatim>\<open>import\<close> statement, one
  \<^verbatim>\<open>DEPR_001\<close> diagnostic at the statement's line for each imported name that is
  \<^verbatim>\<open>imp\<close> or \<^verbatim>\<open>optparse\<close>, and for a \<^verbatim>\<open>from ... import\<close> statement one
  when its module is one of the two; over a tree it reports these for the import statements
  in pre-order.  \<^verbatim>\<open>import imp\<close> and \<^verbatim>\<open>from optparse import OptionParser\<close> give
  exactly one each, \<^verbatim>\<open>import json\<close> gives none.
\<close>

theorem DeprecatedImportRule_DEPR_001:
  "self_issues (visit (new_rule DeprecatedImportRule fp) tree) =
     concat (map (deprecated_import_at fp) (preorder_to_imports tree))
   \<and> self_issues (visit (new_rule DeprecatedImportRule fp) (Node (Import names lineno) cs)) =
       map (\<lambda>m. \<lparr>file = fp, rule_id = ''DEPR_001'', category = ''Deprecated'', severity = ''HIGH'',
                  message = ''Deprecated module '' @ [CHR 0x27] @ m @ [CHR 0x27] @ '' used'',
                  line = lineno\<rparr>)
         (filter (\<lambda>m. m \<in> {''imp'', ''optparse''}) names)
   \<and> self_issues (visit (new_rule DeprecatedImportRule fp)
        (Module [Node (Import [''imp''] 1) [alias_node]])) =
       [\<lparr>file = fp, rule_id = ''DEPR_001'', category = ''Deprecated'', severity = ''HIGH'',
         message = ''Deprecated module '' @ [CHR 0x27] @ ''imp'' @ [CHR 0x27] @ '' used'',
         line = 1\<rparr>]
   \<and> self_issues (visit (new_rule DeprecatedImportRule fp)
        (Module [Node (ImportFrom (Some ''optparse'') 1) [alias_node]])) =
       [\<lparr>file = fp, rule_id = ''DEPR_001'', category = ''Deprecated'', severity = ''HIGH'',
         message = ''Deprecated module '' @ [CHR 0x27] @ ''optparse'' @ [CHR 0x27] @ '' used'',
         line = 1\<rparr>]
   \<and> self_issues (visit (new_rule DeprecatedImportRule fp)
        (Module [Node (Import [''json''] 1) [alias_node]])) = []"
proof (intro conjI)
  show "self_issues (visit (new_rule DeprecatedImportRule fp) tree) =
     concat (map (deprecated_import_at fp) (preorder_to_imports tree))"
    by (rule visit_DeprecatedImportRule)
qed (simp_all add: visit_DeprecatedImportRule deprecated_import_diagnostic_def)

text \<open>
  Claim C6.  The long-function rule reports \<^verbatim>\<open>MAINT_001\<close> for a function definition
  exactly when \<^verbatim>\<open>end_lineno - lineno\<close> is greater than 50, at the line of the
  definition; over a tree it reports these for the function definitions in pre-order.  A
  difference of 51 gives the diagnostic, a difference of 50 gives none.
\<close>

theorem LongFunctionRule_MAINT_001:
  "self_issues (visit (new_rule LongFunctionRule fp) tree) =
     concat (map (long_function_at fp) (preorder tree))
   \<and> self_issues (visit (new_rule LongFunctionRule fp)
        (Node (FunctionDef name a lineno end_lineno) [])) =
       (if end_lineno - lineno > 50
        then [\<lparr>file = fp, rule_id = ''MAINT_001'', category = ''Maintainability'',
               severity = ''MEDIUM'',
               message = ''Function '' @ [CHR 0x27] @ name @ [CHR 0x27] @ '' too long ('' @
                         str_int (end_lineno - lineno) @ '' lines)'',
               line = lineno\<rparr>]
        else [])
   \<and> self_issues (visit (new_rule LongFunctionRule fp)
        (Module [Node (FunctionDef ''f'' (positional []) 10 61)
                   [arguments_node (positional []), Pass]])) =
       [\<lparr>file = fp, rule_id = ''MAINT_001'', category = ''Maintainability'', severity = ''MEDIUM'',
         message = ''Function '' @ [CHR 0x27] @ ''f'' @ [CHR 0x27] @ '' too long (51 lines)'',
         line = 10\<rparr>]
   \<and> self_issues (visit (new_rule LongFunctionRule fp)
        (Module [Node (FunctionDef ''f'' (positional []) 10 60)
                   [arguments_node (positional []), Pass]])) = []"
proof (intro conjI)
  show "self_issues (visit (new_rule LongFunctionRule fp) tree) =
     concat (map (long_function_at fp) (preorder tree))"
    by (rule visit_LongFunctionRule)
qed (simp_all add: visit_LongFunctionRule long_function_diagnostic_def positional_def
      str_int_examples)

text \<open>
  Claim C7, as stated: the too-many-parameters rule reports a function definition exactly
  when its declared parameter count is greater than 5.  It does not hold: the rule counts
  \<^verbatim>\<open>node.args.args\<close>, the plain positional parameters, so
  \<^verbatim>\<open>def f(a, b, c, *, d, e, g)\<close> declares six parameters and is not reported.
\<close>

theorem TooManyParametersRule_declared_counterexample:
  "declared_parameters
     \<lparr>posonlyargs = [], args = [''a'', ''b'', ''c''], vararg = None,
      kwonlyargs = [''d'', ''e'', ''g''], kwarg = None\<rparr> = 6
   \<and> self_issues (visit (new_rule TooManyParametersRule ''m.py'')
        (Module [Node (FunctionDef ''f''
                         \<lparr>posonlyargs = [], args = [''a'', ''b'', ''c''], vararg = None,
                          kwonlyargs = [''d'', ''e'', ''g''], kwarg = None\<rparr> 1 2)
                   [Node Other [Name, Name, Name, Name, Name, Name], Pass]])) = []"
  by (simp add: declared_parameters_def visit_TooManyParametersRule)

text \<open>
  Claim C7, amended.  The too-many-parameters rule reports \<^verbatim>\<open>MAINT_002\<close> for a function
  definition exactly when the number of its plain positional parameters
  (\<^verbatim>\<open>node.args.args\<close>; positional-only and keyword-only parameters, \<^verbatim>\<open>*args\<close> and
  \<^verbatim>\<open>**kwargs\<close> are not counted) is greater than 5, with that number in the message;
  over a tree it reports these for the function definitions in pre-order.  Six such
  parameters give the diagnostic, whose message ends in \<^verbatim>\<open>(6)\<close>; five give none.
\<close>

theorem TooManyParametersRule_MAINT_002:
  "self_issues (visit (new_rule TooManyParametersRule fp) tree) =
     concat (map (too_many_parameters_at fp) (preorder tree))
   \<and> self_issues (visit (new_rule TooManyParametersRule fp)
        (Node (FunctionDef name a lineno end_lineno) [])) =
       (if length (args a) > 5
        then [\<lparr>file = fp, rule_id = ''MAINT_002'', category = ''Maintainability'',
               severity = ''MEDIUM'',
               message = ''Function '' @ [CHR 0x27] @ name @ [CHR 0x27] @
                         '' has too many parameters ('' @ str_int (int (length (args a))) @ '')'',
               line = lineno\<rparr>]
        else [])
   \<and> self_issues (visit (new_rule TooManyParametersRule fp)
        (Module [Node (FunctionDef ''f'' (positional [''a'', ''b'', ''c'', ''d'', ''e'', ''g'']) 1 2)
                   [arguments_node (positional [''a'', ''b'', ''c'', ''d'', ''e'', ''g'']), Pass]])) =
       [\<lparr>file = fp, rule_id = ''MAINT_002'', category = ''Maintainability'', severity = ''MEDIUM'',
         message = ''Function '' @ [CHR 0x27] @ ''f'' @ [CHR 0x27] @ '' has too many parameters (6)'',
         line = 1\<rparr>]
   \<and> self_issues (visit (new_rule TooManyParametersRule fp)
        (Module [Node (FunctionDef ''f'' (positional [''a'', ''b'', ''c'', ''d'', ''e'']) 1 2)
                   [arguments_node (positional [''a'', ''b'', ''c'', ''d'', ''e'']), Pass]])) = []"
proof (intro conjI)
  show "self_issues (visit (new_rule TooManyParametersRule fp) tree) =
     concat (map (too_many_parameters_at fp) (preorder tree))"
    by (rule visit_TooManyParametersRule)
qed (simp_all add: visit_TooManyParametersRule too_many_parameters_diagnostic_def positional_def
      str_int_examples)

section \<open>The order of the result\<close>

text \<open>
  Claim C8.  When the file can be read and its text parses, \<^verbatim>\<open>analyze_file\<close> returns
  the large-file diagnostic first (if there is one), then the diagnostics of
  \<^verbatim>\<open>LongFunctionRule\<close>, of \<^verbatim>\<open>DeprecatedImportRule\<close>, of
  \<^verbatim>\<open>TooManyParametersRule\<close> and of \<^verbatim>\<open>DeepNestingRule\<close>, in this order, each
  rule's in the pre-order of the nodes it reports on.  (The witness is the module of 510
  lines above.)
\<close>

theorem analyze_file_order:
  assumes "fs fp = Inr text" and "parse text = Inr tree"
  shows "analyze_file fs parse fp =
     Inr ((if length (readlines text) > 500
           then [large_file_diagnostic fp (length (readlines text))] else [])
          @ concat (map (long_function_at fp) (preorder tree))
          @ concat (map (deprecated_import_at fp) (preorder_to_imports tree))
          @ concat (map (too_many_parameters_at fp) (preorder tree))
          @ concat (map (deep_nesting_at fp) (occurrences [] tree)))"
  using analyze_file_parsed [of fs fp "text" parse tree, OF assms]
  by (simp add: large_file_issues_def)

theorem analyze_file_order_witness:
  "analyze_file (single_file ''m.py'' example_source) (parsing_to example_tree) ''m.py'' =
     Inr [\<lparr>file = ''m.py'', rule_id = ''ORG_001'', category = ''Organization'',
            severity = ''MEDIUM'', message = ''File too large (510 lines)'', line = 1\<rparr>,
          \<lparr>file = ''m.py'', rule_id = ''MAINT_001'', category = ''Maintainability'',
            severity = ''MEDIUM'',
            message = ''Function '' @ [CHR 0x27] @ ''f'' @ [CHR 0x27] @ '' too long (66 lines)'',
            line = 3\<rparr>,
          \<lparr>file = ''m.py'', rule_id = ''DEPR_001'', category = ''Deprecated'',
            severity = ''HIGH'',
            message = ''Deprecated module '' @ [CHR 0x27] @ ''imp'' @ [CHR 0x27] @ '' used'',
            line = 1\<rparr>,
          \<lparr>file = ''m.py'', rule_id = ''DEPR_001'', category = ''Deprecated'',
            severity = ''HIGH'',
            message = ''Deprecated module '' @ [CHR 0x27] @ ''optparse'' @ [CHR 0x27] @ '' used'',
            line = 2\<rparr>,
          \<lparr>file = ''m.py'', rule_id = ''MAINT_002'', category = ''Maintainability'',
            severity = ''MEDIUM'',
            message = ''Function '' @ [CHR 0x27] @ ''f'' @ [CHR 0x27] @
                      '' has too many parameters (6)'',
            line = 3\<rparr>,
          \<lparr>file = ''m.py'', rule_id = ''SMELL_001'', category = ''Code Smell'',
            severity = ''MEDIUM'', message = ''Deep nesting detected'', line = 7\<rparr>]"
proof -
  have r: "single_file ''m.py'' example_source ''m.py'' = Inr example_source"
    by (simp add: single_file_def)
  have p: "parsing_to example_tree example_source = Inr example_tree"
    by (simp add: parsing_to_def)
  show ?thesis
    unfolding analyze_file_order [of "single_file ''m.py'' example_source" "''m.py''"
        example_source "parsing_to example_tree" example_tree, OF r p]
      length_readlines_example_source
    by (simp add: example_tree_def positional_def large_file_diagnostic_def
        long_function_diagnostic_def deprecated_import_diagnostic_def
        too_many_parameters_diagnostic_def deep_nesting_at_def nesting_depth_def
        deep_nesting_diagnostic_def str_int_examples)
qed

section \<open>Determinism\<close>

text \<open>
  Claim C9.  A run of \<^verbatim>\<open>analyze_file\<close> on a path reads the content of that file and
  nothing else: the rule objects are made anew in every run, and no other state, clock or
  source of randomness is consulted.  Two runs, in whatever two states of the file system,
  give the same outcome, field for field, when the content of the file is the same in
  both.
\<close>

theorem analyze_file_depends_on_content_only:
  assumes "fs1 fp = fs2 fp"
  shows "analyze_file fs1 parse fp = analyze_file fs2 parse fp"
  unfolding analyze_file_def check_large_file_def assms by (rule refl)

theorem analyze_file_depends_on_content_only_witness:
  "single_file ''m.py'' example_source ''m.py'' =
     ((single_file ''m.py'' example_source)(''other.py'' := Inr ''import imp'')) ''m.py''
   \<and> analyze_file (single_file ''m.py'' example_source) (parsing_to example_tree) ''m.py'' =
       analyze_file ((single_file ''m.py'' example_source)(''other.py'' := Inr ''import imp''))
         (parsing_to example_tree) ''m.py''"
proof -
  have h: "single_file ''m.py'' example_source ''m.py'' =
     ((single_file ''m.py'' example_source)(''other.py'' := Inr ''import imp'')) ''m.py''"
    by simp
  show ?thesis
    using h
      analyze_file_depends_on_content_only
        [of "single_file ''m.py'' example_source" "''m.py''"
          "(single_file ''m.py'' example_source)(''other.py'' := Inr ''import imp'')"
          "parsing_to example_tree", OF h]
    by (rule conjI)
qed

section \<open>Which definitions and which parameters count\<close>

text \<open>
  Claim C10.  The too-many-parameters rule counts \<^verbatim>\<open>node.args.args\<close> only: changing
  the positional-only parameters, \<^verbatim>\<open>*args\<close>, the keyword-only parameters and
  \<^verbatim>\<open>**kwargs\<close> of a function definition changes nothing of what the rule does.  On an
  \<^verbatim>\<open>async def\<close> the long-function rule and the too-many-parameters rule do what
  \<^verbatim>\<open>generic_visit\<close> does, they visit the children and report nothing for the
  definition itself, whatever its length and its parameters.  A function with two
  positional-only, three plain, two keyword-only parameters, \<^verbatim>\<open>*rest\<close> and
  \<^verbatim>\<open>**kw\<close> is not reported; an \<^verbatim>\<open>async def\<close> of seven parameters that spans 100
  lines is reported by neither rule.
\<close>

theorem FunctionDef_plain_positional_only:
  "TooManyParametersRule_visit
     (Node (FunctionDef name (a\<lparr>posonlyargs := po, vararg := va, kwonlyargs := ko, kwarg := kw\<rparr>)
              lineno end_lineno) cs) self =
   TooManyParametersRule_visit (Node (FunctionDef name a lineno end_lineno) cs) self
   \<and> LongFunctionRule_visit (Node (AsyncFunctionDef name a lineno end_lineno) cs) self =
       fold LongFunctionRule_visit cs self
   \<and> TooManyParametersRule_visit (Node (AsyncFunctionDef name a lineno end_lineno) cs) self =
       fold TooManyParametersRule_visit cs self
   \<and> self_issues (visit (new_rule TooManyParametersRule fp)
        (Module [Node (FunctionDef ''f''
                         \<lparr>posonlyargs = [''a'', ''b''], args = [''c'', ''d'', ''e''],
                          vararg = Some ''rest'', kwonlyargs = [''k1'', ''k2''],
                          kwarg = Some ''kw''\<rparr> 1 2)
                   [Node Other [Name, Name, Name, Name, Name, Name, Name, Name, Name], Pass]])) = []
   \<and> self_issues (visit (new_rule TooManyParametersRule fp)
        (Module [Node (AsyncFunctionDef ''f''
                         (positional [''a'', ''b'', ''c'', ''d'', ''e'', ''g'', ''h'']) 1 101)
                   [arguments_node (positional [''a'', ''b'', ''c'', ''d'', ''e'', ''g'', ''h'']),
                    Pass]])) = []
   \<and> self_issues (visit (new_rule LongFunctionRule fp)
        (Module [Node (AsyncFunctionDef ''f''
                         (positional [''a'', ''b'', ''c'', ''d'', ''e'', ''g'', ''h'']) 1 101)
                   [arguments_node (positional [''a'', ''b'', ''c'', ''d'', ''e'', ''g'', ''h'']),
                    Pass]])) = []"
  by (simp add: visit_TooManyParametersRule visit_LongFunctionRule positional_def)

end
